theory Spec2Isabelle
  imports Main "HOL-Library.Sublist" "HOL-Library.Multiset"
begin

section \<open>Python values\<close>

text \<open>
  A Python \<^verbatim>\<open>str\<close> is the list of its Unicode code points. The labels of
  \<^verbatim>\<open>ATTRIBUTE_MAP\<close> and the listing names contain code points above 255, so a
  code point is a natural number; \<open>u\<close> embeds an ASCII literal.
\<close>

type_synonym pystr = "nat list"

definition u :: "string \<Rightarrow> pystr" where
  "u s = map of_char s"

text \<open>
  What \<^verbatim>\<open>response.json()\<close> returns: \<^verbatim>\<open>None\<close>, a bool, an int, a float
  (\<open>JFloat m e\<close> is the double \<open>m * 2 ^ e\<close>), a str, a list or a dict. A dict is
  the list of its entries in insertion order, each key once.
\<close>

datatype jval =
    JNull
  | JBool bool
  | JInt int
  | JFloat int int
  | JStr pystr
  | JList "jval list"
  | JObj "(pystr \<times> jval) list"

text \<open>The exceptions of the source that no \<^verbatim>\<open>except\<close> clause catches.\<close>

datatype py_error =
  AttributeError | TypeError | ValueError | FileNotFoundError | UnicodeEncodeError

text \<open>\<^verbatim>\<open>d.get(k, default)\<close>\<close>

definition dict_get :: "(pystr \<times> 'v) list \<Rightarrow> pystr \<Rightarrow> 'v \<Rightarrow> 'v" where
  "dict_get d k dflt = (case map_of d k of Some v \<Rightarrow> v | None \<Rightarrow> dflt)"

text \<open>\<^verbatim>\<open>bool(v)\<close>, the test of \<^verbatim>\<open>if v:\<close> and of \<^verbatim>\<open>v or w\<close>.\<close>

fun truthy :: "jval \<Rightarrow> bool" where
  "truthy JNull = False"
| "truthy (JBool b) = b"
| "truthy (JInt i) = (i \<noteq> 0)"
| "truthy (JFloat m e) = (m \<noteq> 0)"
| "truthy (JStr s) = (s \<noteq> [])"
| "truthy (JList vs) = (vs \<noteq> [])"
| "truthy (JObj d) = (d \<noteq> [])"

text \<open>\<^verbatim>\<open>str(n)\<close> of an int: decimal digits, a minus sign first when negative.\<close>

fun str_nat :: "nat \<Rightarrow> pystr" where
  "str_nat n = (if n < 10 then [48 + n] else str_nat (n div 10) @ [48 + n mod 10])"

declare str_nat.simps [simp del]

definition str_int :: "int \<Rightarrow> pystr" where
  "str_int i = (if i < 0 then 45 # str_nat (nat (- i)) else str_nat (nat i))"

text \<open>
  \<^verbatim>\<open>str(v)\<close>. For a float, a list and a dict Python prints the \<^verbatim>\<open>repr\<close>; that
  printer is the parameter \<open>rp\<close>.
\<close>

fun py_str :: "(jval \<Rightarrow> pystr) \<Rightarrow> jval \<Rightarrow> pystr" where
  "py_str rp JNull = u ''None''"
| "py_str rp (JBool b) = (if b then u ''True'' else u ''False'')"
| "py_str rp (JInt i) = str_int i"
| "py_str rp (JStr s) = s"
| "py_str rp v = rp v"

text \<open>\<^verbatim>\<open>sep.join(parts)\<close>\<close>

fun str_join :: "pystr \<Rightarrow> pystr list \<Rightarrow> pystr" where
  "str_join sep [] = []"
| "str_join sep [p] = p"
| "str_join sep (p # q # ps) = p @ sep @ str_join sep (q # ps)"

section \<open>The attribute normalizer\<close>

text \<open>
  \<^verbatim>\<open>v.get("value", v) if isinstance(v, dict) else v\<close>, the element of a list value
  before \<^verbatim>\<open>str\<close>.
\<close>

fun element_value :: "jval \<Rightarrow> jval" where
  "element_value (JObj d) = dict_get d (u ''value'') (JObj d)"
| "element_value v = v"

text \<open>Lines 104 to 109: the string returned for the value of the matched item.\<close>

fun value_string :: "(jval \<Rightarrow> pystr) \<Rightarrow> jval \<Rightarrow> pystr" where
  "value_string rp (JList vs) = str_join (u '', '') (map (\<lambda>v. py_str rp (element_value v)) vs)"
| "value_string rp JNull = []"
| "value_string rp v = py_str rp v"

text \<open>
  The inner loop \<^verbatim>\<open>for item in items\<close> for one candidate name: the string of the
  first item whose \<^verbatim>\<open>item.get("name")\<close> equals the name, \<open>None\<close> when the loop
  ends without a match. \<^verbatim>\<open>item.get\<close> on an item that is not a dict raises
  AttributeError when the loop reaches it.
\<close>

fun scan_items :: "(jval \<Rightarrow> pystr) \<Rightarrow> jval list \<Rightarrow> pystr \<Rightarrow> py_error + pystr option" where
  "scan_items rp [] name = Inr None"
| "scan_items rp (JObj d # items) name =
     (if dict_get d (u ''name'') JNull = JStr name
      then Inr (Some (value_string rp (dict_get d (u ''value'') JNull)))
      else scan_items rp items name)"
| "scan_items rp (item # items) name = Inl AttributeError"

fun extract_attribute :: "(jval \<Rightarrow> pystr) \<Rightarrow> jval list \<Rightarrow> pystr list \<Rightarrow> py_error + pystr" where
  "extract_attribute rp items [] = Inr []"
| "extract_attribute rp items (name # possible_names) =
     (case scan_items rp items name of
        Inl e \<Rightarrow> Inl e
      | Inr (Some s) \<Rightarrow> Inr s
      | Inr None \<Rightarrow> extract_attribute rp items possible_names)"

text \<open>An Attribute Item of the data model is an object; its label and its value.\<close>

fun is_obj :: "jval \<Rightarrow> bool" where
  "is_obj (JObj d) = True"
| "is_obj v = False"

fun item_label :: "jval \<Rightarrow> jval" where
  "item_label (JObj d) = dict_get d (u ''name'') JNull"
| "item_label v = JNull"

fun item_value :: "jval \<Rightarrow> jval" where
  "item_value (JObj d) = dict_get d (u ''value'') JNull"
| "item_value v = JNull"

text \<open>
  The search order of the contract: candidates in order, for each candidate the items
  in their original order.
\<close>

definition matches_in_order :: "jval list \<Rightarrow> pystr list \<Rightarrow> jval list" where
  "matches_in_order items possible_names =
     concat (map (\<lambda>name. filter (\<lambda>item. item_label item = JStr name) items) possible_names)"

section \<open>The text extractors\<close>

text \<open>
  The tables of the Python library that the patterns use. \<^verbatim>\<open>\s\<close> and
  \<^verbatim>\<open>str.strip\<close> take the code points for which \<^verbatim>\<open>str.isspace\<close> holds.
  \<^verbatim>\<open>\d\<close> takes a decimal digit of any script: the ASCII digits, and above 127 the
  code points of the Unicode category Nd, the table \<open>nd\<close>. With
  \<^verbatim>\<open>re.IGNORECASE\<close> the letter k also takes K and the Kelvin sign U+212A.
\<close>

definition is_space :: "nat \<Rightarrow> bool" where
  "is_space c =
     ((9 \<le> c \<and> c \<le> 13) \<or> (28 \<le> c \<and> c \<le> 32) \<or> c = 133 \<or> c = 160 \<or> c = 5760
      \<or> (8192 \<le> c \<and> c \<le> 8202) \<or> c = 8232 \<or> c = 8233 \<or> c = 8239 \<or> c = 8287
      \<or> c = 12288)"

definition re_digit :: "(nat \<Rightarrow> bool) \<Rightarrow> nat \<Rightarrow> bool" where
  "re_digit nd c = (if c < 128 then 48 \<le> c \<and> c \<le> 57 else nd c)"

definition re_k :: "nat \<Rightarrow> bool" where
  "re_k c = (c = 107 \<or> c = 75 \<or> c = 8490)"

text \<open>
  \<^verbatim>\<open>re.search\<close>: the match at the leftmost position where the pattern matches,
  \<open>m\<close> being the pattern tried at the start of a suffix.
\<close>

fun re_search :: "(pystr \<Rightarrow> 'a option) \<Rightarrow> pystr \<Rightarrow> 'a option" where
  "re_search m [] = m []"
| "re_search m (c # cs) = (case m (c # cs) of Some r \<Rightarrow> Some r | None \<Rightarrow> re_search m cs)"

text \<open>\<^verbatim>\<open>(?:kk|1|2|3)\<close> at the start of a string: the text it takes.\<close>

fun rooms_suffix :: "pystr \<Rightarrow> pystr option" where
  "rooms_suffix (a # b # cs) =
     (if re_k a \<and> re_k b then Some [a, b]
      else if a = 49 \<or> a = 50 \<or> a = 51 then Some [a] else None)"
| "rooms_suffix [a] = (if a = 49 \<or> a = 50 \<or> a = 51 then Some [a] else None)"
| "rooms_suffix [] = None"

text \<open>\<^verbatim>\<open>(\d\+(?:kk|1|2|3))\<close> at the start of a string: group 1.\<close>

fun rooms_pattern :: "(nat \<Rightarrow> bool) \<Rightarrow> pystr \<Rightarrow> pystr option" where
  "rooms_pattern nd (d # p # cs) =
     (if re_digit nd d \<and> p = 43
      then (case rooms_suffix cs of Some t \<Rightarrow> Some (d # p # t) | None \<Rightarrow> None)
      else None)"
| "rooms_pattern nd cs = None"

text \<open>
  \<^verbatim>\<open>str.lower\<close>: below 256 the letters A to Z and the capital letters of Latin-1
  move up by 32 and every other code point stays; from 256 on the lower-case text of
  the code point at index \<open>i\<close> of \<open>s\<close> is read from the table \<open>low\<close>.
\<close>

definition lower_latin1 :: "nat \<Rightarrow> nat" where
  "lower_latin1 c =
     (if (65 \<le> c \<and> c \<le> 90) \<or> (192 \<le> c \<and> c \<le> 222 \<and> c \<noteq> 215) then c + 32 else c)"

fun lower_from :: "(pystr \<Rightarrow> nat \<Rightarrow> pystr) \<Rightarrow> pystr \<Rightarrow> nat \<Rightarrow> pystr \<Rightarrow> pystr" where
  "lower_from low s i [] = []"
| "lower_from low s i (c # cs) =
     (if c < 256 then [lower_latin1 c] else low s i) @ lower_from low s (Suc i) cs"

definition py_lower :: "(pystr \<Rightarrow> nat \<Rightarrow> pystr) \<Rightarrow> pystr \<Rightarrow> pystr" where
  "py_lower low s = lower_from low s 0 s"

text \<open>\<^verbatim>\<open>needle in hay\<close> on two strings.\<close>

fun py_in :: "pystr \<Rightarrow> pystr \<Rightarrow> bool" where
  "py_in needle [] = (needle = [])"
| "py_in needle (c # cs) = (prefix needle (c # cs) \<or> py_in needle cs)"

definition extract_rooms_from_name ::
  "(jval \<Rightarrow> pystr) \<Rightarrow> (nat \<Rightarrow> bool) \<Rightarrow> (pystr \<Rightarrow> nat \<Rightarrow> pystr) \<Rightarrow> jval \<Rightarrow> pystr" where
  "extract_rooms_from_name rp nd low name =
     (case re_search (rooms_pattern nd) (py_str rp name) of
        Some g \<Rightarrow> g
      | None \<Rightarrow>
          if py_in (u ''atypick'') (py_lower low (py_str rp name)) then u ''atypicky'' else [])"

text \<open>
  The pattern of \<^verbatim>\<open>extract_size_from_name\<close> at the start of a string: digits,
  spaces, the letter m, then the superscript two U+00B2 or the digit 2; group 1 is the
  digits. A digit, a space and the letter m exclude one another, so the greedy runs are
  the only way to match.
\<close>

definition size_pattern :: "(nat \<Rightarrow> bool) \<Rightarrow> pystr \<Rightarrow> pystr option" where
  "size_pattern nd s =
     (let ds = takeWhile (re_digit nd) s;
          rest = dropWhile is_space (dropWhile (re_digit nd) s)
      in if ds \<noteq> [] \<and> (case rest of m # c # _ \<Rightarrow> m = 109 \<and> (c = 178 \<or> c = 50) | _ \<Rightarrow> False)
         then Some ds else None)"

definition extract_size_from_name :: "(jval \<Rightarrow> pystr) \<Rightarrow> (nat \<Rightarrow> bool) \<Rightarrow> jval \<Rightarrow> pystr" where
  "extract_size_from_name rp nd name =
     (case re_search (size_pattern nd) (py_str rp name) of Some g \<Rightarrow> g | None \<Rightarrow> [])"

text \<open>
  \<^verbatim>\<open>Praha\s+\d+\<close> at the start of a string: the digits and the text after them.
\<close>

definition praha_number :: "(nat \<Rightarrow> bool) \<Rightarrow> pystr \<Rightarrow> (pystr \<times> pystr) option" where
  "praha_number nd s =
     (if prefix (u ''Praha'') s
      then (let r = drop 5 s; t = dropWhile is_space r
            in if takeWhile is_space r \<noteq> [] \<and> takeWhile (re_digit nd) t \<noteq> []
               then Some (takeWhile (re_digit nd) t, dropWhile (re_digit nd) t) else None)
      else None)"

definition parse_district :: "(jval \<Rightarrow> pystr) \<Rightarrow> (nat \<Rightarrow> bool) \<Rightarrow> jval \<Rightarrow> pystr" where
  "parse_district rp nd locality_text =
     (case re_search (praha_number nd) (py_str rp locality_text) of
        Some (ds, rest) \<Rightarrow> u ''Praha '' @ ds
      | None \<Rightarrow> [])"

definition py_strip :: "pystr \<Rightarrow> pystr" where
  "py_strip s = rev (dropWhile is_space (rev (dropWhile is_space s)))"

text \<open>
  \<^verbatim>\<open>Praha\s+\d+\s*-\s*(.+)\<close> at the start of a string: group 1, stripped. After the
  hyphen \<^verbatim>\<open>\s*\<close> takes every space and \<^verbatim>\<open>.+\<close> the rest of the line. When only
  spaces follow the hyphen, \<^verbatim>\<open>\s*\<close> gives back the last space that is not a line
  feed and the group is that one space, which strips to the empty string; when there is
  no such space the pattern does not match.
\<close>

definition neighborhood_pattern :: "(nat \<Rightarrow> bool) \<Rightarrow> pystr \<Rightarrow> pystr option" where
  "neighborhood_pattern nd s =
     (case praha_number nd s of
        None \<Rightarrow> None
      | Some (ds, rest) \<Rightarrow>
          (case dropWhile is_space rest of
             [] \<Rightarrow> None
           | h # r \<Rightarrow>
               if h \<noteq> 45 then None
               else if dropWhile is_space r \<noteq> []
               then Some (py_strip (takeWhile (\<lambda>c. c \<noteq> 10) (dropWhile is_space r)))
               else if filter (\<lambda>c. c \<noteq> 10) r \<noteq> [] then Some [] else None))"

definition parse_neighborhood :: "(jval \<Rightarrow> pystr) \<Rightarrow> (nat \<Rightarrow> bool) \<Rightarrow> jval \<Rightarrow> pystr" where
  "parse_neighborhood rp nd locality_text =
     (case re_search (neighborhood_pattern nd) (py_str rp locality_text) of
        Some g \<Rightarrow> g
      | None \<Rightarrow> [])"

section \<open>Configuration\<close>

definition ATTRIBUTE_MAP :: "(pystr \<times> pystr list) list" where
  "ATTRIBUTE_MAP =
     [(u ''size_m2'', [u ''U'' @ [382] @ u ''itn'' @ [225] @ u '' ploch'',
                       u ''U'' @ [382] @ u ''itn'' @ [225] @ u '' plocha'',
                       u ''Celkov'' @ [225] @ u '' plocha'', u ''Plocha'',
                       u ''Obytn'' @ [225] @ u '' plocha'']),
      (u ''floor'', [u ''Podla'' @ [382] @ [237]]),
      (u ''building_type'', [u ''Stavba'', u ''Typ budovy'']),
      (u ''condition'', [u ''Stav objektu'', u ''Stav'']),
      (u ''furnished'', [u ''Vybaven'' @ [237], u ''Vybaveno'']),
      (u ''elevator'', [u ''V'' @ [253] @ u ''tah'']),
      (u ''balcony'', [u ''Balk'' @ [243] @ u ''n'', u ''Balkon'']),
      (u ''terrace'', [u ''Terasa'']),
      (u ''energy_rating'',
         [u ''Energetick'' @ [225] @ u '' n'' @ [225] @ u ''ro'' @ [269] @ u ''nost budovy'',
          u ''PENB'']),
      (u ''ownership'', [u ''Vlastnictv'' @ [237]]),
      (u ''parking'', [u ''Parkov'' @ [225] @ u ''n'' @ [237]]),
      (u ''cellar'', [u ''Sklep'']),
      (u ''loggia'', [u ''Lod'' @ [382] @ u ''ie'', u ''Lod'' @ [382] @ u ''ia'']),
      (u ''heating'', [u ''Topen'' @ [237]]),
      (u ''apartment_type'', [u ''Typ bytu'']),
      (u ''note_about_price'', [u ''Pozn'' @ [225] @ u ''mka k cen'' @ [283]])]"

definition CSV_COLUMNS :: "pystr list" where
  "CSV_COLUMNS =
     [u ''scrape_date'', u ''hash_id'', u ''name'', u ''locality'', u ''district'',
      u ''neighborhood'', u ''price_czk'', u ''size_m2'', u ''rooms'', u ''floor'',
      u ''building_type'', u ''condition'', u ''furnished'', u ''elevator'', u ''balcony'',
      u ''terrace'', u ''energy_rating'', u ''ownership'', u ''parking'', u ''cellar'',
      u ''loggia'', u ''heating'', u ''apartment_type'', u ''note_about_price'']"

section \<open>Files of the output directory\<close>

text \<open>
  A row as \<^verbatim>\<open>csv.DictReader\<close> yields it: a dict from the names of the header to the
  cells of the row. A row shorter than the header has \<^verbatim>\<open>None\<close> for each column it
  lacks; the surplus cells of a row longer than the header, which the reader keeps under
  the key \<^verbatim>\<open>None\<close>, are not represented. A file is the list of its rows; the
  directory lists its files in the order of \<^verbatim>\<open>os.listdir\<close>, and is \<open>None\<close>
  when it does not exist.
\<close>

type_synonym csv_row = "(pystr \<times> pystr option) list"

type_synonym directory = "(pystr \<times> csv_row list) list"

text \<open>A written table: the rows of cells, the header row among them.\<close>

type_synonym csv_text = "pystr list list"

definition is_data_file :: "pystr \<Rightarrow> bool" where
  "is_data_file filename =
     (prefix (u ''sreality_'') filename \<and> prefix (rev (u ''.csv'')) (rev filename))"

text \<open>\<^verbatim>\<open>row.get("hash_id", "")\<close>\<close>

definition row_id :: "csv_row \<Rightarrow> pystr option" where
  "row_id row = dict_get row (u ''hash_id'') (Some [])"

fun ids_of_rows :: "csv_row list \<Rightarrow> pystr set \<Rightarrow> pystr set" where
  "ids_of_rows [] existing_ids = existing_ids"
| "ids_of_rows (row # rows) existing_ids =
     (case row_id row of
        Some hash_id \<Rightarrow>
          if hash_id \<noteq> [] then ids_of_rows rows (insert hash_id existing_ids)
          else ids_of_rows rows existing_ids
      | None \<Rightarrow> ids_of_rows rows existing_ids)"

fun ids_of_files :: "directory \<Rightarrow> pystr set \<Rightarrow> pystr set" where
  "ids_of_files [] existing_ids = existing_ids"
| "ids_of_files ((filename, rows) # files) existing_ids =
     (if is_data_file filename then ids_of_files files (ids_of_rows rows existing_ids)
      else ids_of_files files existing_ids)"

fun load_existing_ids :: "directory option \<Rightarrow> pystr set" where
  "load_existing_ids None = {}"
| "load_existing_ids (Some dir) = ids_of_files dir {}"

section \<open>The listing fetcher\<close>




type_synonym listing_id = "jval \<times> (pystr \<times> jval) list"

text \<open>\<^verbatim>\<open>for x in v\<close>: the elements of a list, the keys of a dict, the characters of a str.\<close>

fun py_iter :: "jval \<Rightarrow> py_error + jval list" where
  "py_iter (JList vs) = Inr vs"
| "py_iter (JObj d) = Inr (map (\<lambda>(k, v). JStr k) d)"
| "py_iter (JStr s) = Inr (map (\<lambda>c. JStr [c]) s)"
| "py_iter v = Inl TypeError"

text \<open>Lines 85 to 90. \<^verbatim>\<open>estate.get("price_czk", {}).get\<close> needs a dict.\<close>

definition basic_info_of :: "(pystr \<times> jval) list \<Rightarrow> py_error + (pystr \<times> jval) list" where
  "basic_info_of estate =
     (case dict_get estate (u ''price_czk'') (JObj []) of
        JObj pc \<Rightarrow>
          Inr [(u ''name'', dict_get estate (u ''name'') (JStr [])),
               (u ''locality'', dict_get estate (u ''locality'') (JStr [])),
               (u ''price'', dict_get estate (u ''price'') JNull),
               (u ''price_czk'', dict_get pc (u ''value_raw'') JNull)]
      | _ \<Rightarrow> Inl AttributeError)"




fun detail_columns ::
  "(jval \<Rightarrow> pystr) \<Rightarrow> jval list \<Rightarrow> (pystr \<times> pystr list) list \<Rightarrow> py_error + (pystr \<times> pystr) list" where
  "detail_columns rp items [] = Inr []"
| "detail_columns rp items ((csv_col, possible_names) # attribute_map) =
     (case extract_attribute rp items possible_names of
        Inl e \<Rightarrow> Inl e
      | Inr s \<Rightarrow>
          (case detail_columns rp items attribute_map of
             Inl e \<Rightarrow> Inl e
           | Inr detail \<Rightarrow> Inr ((csv_col, s) # detail)))"

text \<open>
  Lines 151 to 160. An \<^verbatim>\<open>items\<close> that cannot be iterated raises TypeError in the
  first \<^verbatim>\<open>for item in items\<close>, which the first column always reaches.
\<close>

definition detail_of :: "(jval \<Rightarrow> pystr) \<Rightarrow> jval \<Rightarrow> py_error + (pystr \<times> pystr) list" where
  "detail_of rp data =
     (case data of
        JObj d \<Rightarrow>
          (case py_iter (dict_get d (u ''items'') (JList [])) of
             Inl e \<Rightarrow> Inl e
           | Inr items \<Rightarrow> detail_columns rp items ATTRIBUTE_MAP)
      | _ \<Rightarrow> Inl AttributeError)"


section \<open>The tabular writer\<close>

text \<open>
  \<^verbatim>\<open>csv.DictWriter(f, fieldnames=CSV_COLUMNS).writerow\<close>: a dict with a key outside
  the field names raises ValueError; a field name that the dict lacks is written as the
  empty string; \<^verbatim>\<open>None\<close> is written as the empty string and every other value as
  its \<^verbatim>\<open>str\<close>. The file is opened with the encoding \<^verbatim>\<open>utf-8-sig\<close>, which
  cannot encode a surrogate code point (U+D800 to U+DFFF, which the JSON of the API may
  carry): the write of a row with such a cell raises UnicodeEncodeError.
\<close>

definition csv_cell :: "(jval \<Rightarrow> pystr) \<Rightarrow> jval \<Rightarrow> pystr" where
  "csv_cell rp v = (case v of JNull \<Rightarrow> [] | _ \<Rightarrow> py_str rp v)"

definition is_surrogate :: "nat \<Rightarrow> bool" where
  "is_surrogate c = (55296 \<le> c \<and> c \<le> 57343)"

definition writer_row :: "(jval \<Rightarrow> pystr) \<Rightarrow> (pystr \<times> jval) list \<Rightarrow> py_error + pystr list" where
  "writer_row rp listing =
     (if list_all (\<lambda>(k, v). k \<in> set CSV_COLUMNS) listing
      then (let cells = map (\<lambda>c. csv_cell rp (dict_get listing c (JStr []))) CSV_COLUMNS
            in if list_ex (list_ex is_surrogate) cells then Inl UnicodeEncodeError
               else Inr cells)
      else Inl ValueError)"

fun writer_rows :: "(jval \<Rightarrow> pystr) \<Rightarrow> (pystr \<times> jval) list list \<Rightarrow> py_error + csv_text" where
  "writer_rows rp [] = Inr []"
| "writer_rows rp (listing # listings) =
     (case writer_row rp listing of
        Inl e \<Rightarrow> Inl e
      | Inr cells \<Rightarrow>
          (case writer_rows rp listings of
             Inl e \<Rightarrow> Inl e
           | Inr rows \<Rightarrow> Inr (cells # rows)))"

text \<open>
  \<^verbatim>\<open>save_to_csv(listings, filepath, append)\<close>; \<open>appending\<close> is the argument
  \<^verbatim>\<open>append\<close> and \<open>existing\<close> the table in the file before the call, \<open>None\<close>
  when the file does not exist. The result is the table in the file after the call.
\<close>

definition save_to_csv ::
  "(jval \<Rightarrow> pystr) \<Rightarrow> (pystr \<times> jval) list list \<Rightarrow> csv_text option \<Rightarrow> bool \<Rightarrow> py_error + csv_text" where
  "save_to_csv rp listings existing appending =
     (let write_header = (\<not> appending \<or> existing = None);
          kept = (if appending then (case existing of Some t \<Rightarrow> t | None \<Rightarrow> []) else [])
      in case writer_rows rp listings of
           Inl e \<Rightarrow> Inl e
         | Inr rows \<Rightarrow> Inr (kept @ (if write_header then [CSV_COLUMNS] else []) @ rows))"

section \<open>The scrape\<close>

text \<open>\<^verbatim>\<open>a or b\<close>\<close>

definition py_or :: "jval \<Rightarrow> jval \<Rightarrow> jval" where
  "py_or a b = (if truthy a then a else b)"

text \<open>\<^verbatim>\<open>k in d\<close> and \<^verbatim>\<open>d[k] = v\<close> on a dict kept in insertion order.\<close>

definition dict_has :: "(pystr \<times> 'v) list \<Rightarrow> pystr \<Rightarrow> bool" where
  "dict_has d k = (map_of d k \<noteq> None)"

definition dict_set :: "(pystr \<times> 'v) list \<Rightarrow> pystr \<Rightarrow> 'v \<Rightarrow> (pystr \<times> 'v) list" where
  "dict_set d k v =
     (if dict_has d k then map (\<lambda>(k', v'). if k' = k then (k', v) else (k', v')) d
      else d @ [(k, v)])"

text \<open>The loop of lines 254 to 256 over the keys of \<^verbatim>\<open>ATTRIBUTE_MAP\<close>.\<close>

fun fill_columns ::
  "pystr list \<Rightarrow> (pystr \<times> pystr) list \<Rightarrow> (pystr \<times> jval) list \<Rightarrow> (pystr \<times> jval) list" where
  "fill_columns [] detail listing = listing"
| "fill_columns (csv_col # cols) detail listing =
     (if \<not> dict_has listing csv_col
      then fill_columns cols detail (dict_set listing csv_col (JStr (dict_get detail csv_col [])))
      else fill_columns cols detail listing)"

text \<open>
  Lines 234 to 256: the record of one listing. \<open>today\<close> is
  \<^verbatim>\<open>datetime.now().strftime("%Y-%m-%d")\<close>.
\<close>

definition build_listing ::
  "(jval \<Rightarrow> pystr) \<Rightarrow> (nat \<Rightarrow> bool) \<Rightarrow> (pystr \<Rightarrow> nat \<Rightarrow> pystr) \<Rightarrow> pystr
     \<Rightarrow> jval \<Rightarrow> (pystr \<times> jval) list \<Rightarrow> (pystr \<times> pystr) list \<Rightarrow> (pystr \<times> jval) list" where
  "build_listing rp nd low today hash_id basic_info detail =
     (let name = dict_get basic_info (u ''name'') (JStr []);
          locality = dict_get basic_info (u ''locality'') (JStr []);
          listing =
            [(u ''scrape_date'', JStr today),
             (u ''hash_id'', hash_id),
             (u ''name'', name),
             (u ''locality'', locality),
             (u ''district'', JStr (parse_district rp nd locality)),
             (u ''neighborhood'', JStr (parse_neighborhood rp nd locality)),
             (u ''price_czk'',
                py_or (dict_get basic_info (u ''price'') JNull)
                      (dict_get basic_info (u ''price_czk'') JNull)),
             (u ''rooms'', JStr (extract_rooms_from_name rp nd low name))];
          api_size = dict_get detail (u ''size_m2'') [];
          listing =
            dict_set listing (u ''size_m2'')
              (JStr (if api_size \<noteq> [] then api_size else extract_size_from_name rp nd name))
      in fill_columns (map fst ATTRIBUTE_MAP) detail listing)"


text \<open>Lines 213 to 215.\<close>

definition filter_existing ::
  "(jval \<Rightarrow> pystr) \<Rightarrow> pystr set \<Rightarrow> listing_id list \<Rightarrow> listing_id list" where
  "filter_existing rp existing_ids all_ids =
     (if existing_ids \<noteq> {}
      then filter (\<lambda>(h, b). py_str rp h \<notin> existing_ids) all_ids
      else all_ids)"



section \<open>The merge\<close>

text \<open>
  The loop of lines 279 to 284 over the rows of one file; \<open>cnt\<close> is the counter
  \<^verbatim>\<open>count\<close>.
\<close>

fun merge_rows ::
  "csv_row list \<Rightarrow> csv_row list \<times> pystr option set \<times> nat
     \<Rightarrow> csv_row list \<times> pystr option set \<times> nat" where
  "merge_rows [] st = st"
| "merge_rows (row # rows) (all_rows, seen_ids, cnt) =
     (if row_id row \<notin> seen_ids
      then merge_rows rows (all_rows @ [row], insert (row_id row) seen_ids, cnt + 1)
      else merge_rows rows (all_rows, seen_ids, cnt + 1))"

text \<open>The loop of lines 275 to 285 over the files; the counts are the printed ones.\<close>

fun merge_files ::
  "directory \<Rightarrow> csv_row list \<times> pystr option set \<times> (pystr \<times> nat) list
     \<Rightarrow> csv_row list \<times> pystr option set \<times> (pystr \<times> nat) list" where
  "merge_files [] st = st"
| "merge_files ((filename, rows) # files) (all_rows, seen_ids, counts) =
     (case merge_rows rows (all_rows, seen_ids, 0) of
        (all_rows', seen_ids', cnt) \<Rightarrow>
          merge_files files (all_rows', seen_ids', counts @ [(filename, cnt)]))"

definition csv_files_of :: "directory \<Rightarrow> directory" where
  "csv_files_of dir =
     filter (\<lambda>(f, rows). is_data_file f \<and> f \<noteq> u ''sreality_combined.csv'') dir"

text \<open>A row read from a file as the dict handed to the writer.\<close>

definition row_dict :: "csv_row \<Rightarrow> (pystr \<times> jval) list" where
  "row_dict row = map (\<lambda>(k, c). (k, case c of None \<Rightarrow> JNull | Some s \<Rightarrow> JStr s)) row"

text \<open>
  \<^verbatim>\<open>csv.DictReader\<close> on a written table: the first row is the header, an empty row
  is skipped, a short row is filled with \<^verbatim>\<open>None\<close>.
\<close>

definition dict_reader :: "csv_text \<Rightarrow> csv_row list" where
  "dict_reader text =
     (case text of
        [] \<Rightarrow> []
      | header # rows \<Rightarrow>
          map (\<lambda>cells. zip header (map Some cells @ replicate (length header - length cells) None))
            (filter (\<lambda>cells. cells \<noteq> []) rows))"

definition write_file :: "directory \<Rightarrow> pystr \<Rightarrow> csv_row list \<Rightarrow> directory" where
  "write_file dir filename rows =
     (if dict_has dir filename
      then map (\<lambda>(f, old). if f = filename then (f, rows) else (f, old)) dir
      else dir @ [(filename, rows)])"

record merge_report =
  file_counts :: "(pystr \<times> nat) list"
  combined :: csv_text
  unique_listings :: nat

text \<open>
  \<^verbatim>\<open>merge_data_files()\<close>: the directory after the call and what was printed and
  written; no report when there is no data file. \<^verbatim>\<open>os.listdir\<close> raises
  FileNotFoundError when the directory does not exist.
\<close>

definition merge_data_files ::
  "(jval \<Rightarrow> pystr) \<Rightarrow> directory option \<Rightarrow> py_error + directory \<times> merge_report option" where
  "merge_data_files rp fs =
     (case fs of
        None \<Rightarrow> Inl FileNotFoundError
      | Some dir \<Rightarrow>
          if csv_files_of dir = [] then Inr (dir, None)
          else (case merge_files (csv_files_of dir) ([], {}, []) of
                  (all_rows, seen_ids, counts) \<Rightarrow>
                    (case save_to_csv rp (map row_dict all_rows) None False of
                       Inl e \<Rightarrow> Inl e
                     | Inr text \<Rightarrow>
                         Inr (write_file dir (u ''sreality_combined.csv'') (dict_reader text),
                              Some \<lparr>file_counts = counts, combined = text,
                                    unique_listings = length all_rows\<rparr>))))"

section \<open>Reference notions of the specification\<close>

text \<open>
  The coerced string form of one element of a list value: the \<^verbatim>\<open>"value"\<close>
  sub-field of an object that has one, the element itself otherwise.
\<close>

definition coerced_string :: "(jval \<Rightarrow> pystr) \<Rightarrow> jval \<Rightarrow> pystr" where
  "coerced_string rp v =
     (case v of
        JObj d \<Rightarrow> (case map_of d (u ''value'') of Some x \<Rightarrow> py_str rp x | None \<Rightarrow> py_str rp v)
      | _ \<Rightarrow> py_str rp v)"

text \<open>
  The normalized string of a matched value: the empty string for \<^verbatim>\<open>None\<close>, for a
  sequence the coerced strings of its elements in order with a comma and a space between
  two neighbours, and the \<^verbatim>\<open>str\<close> of any other value.
\<close>

definition normalized_string :: "(jval \<Rightarrow> pystr) \<Rightarrow> jval \<Rightarrow> pystr" where
  "normalized_string rp v =
     (case v of
        JNull \<Rightarrow> []
      | JList vs \<Rightarrow>
          (case vs of
             [] \<Rightarrow> []
           | x # xs \<Rightarrow>
               coerced_string rp x @ concat (map (\<lambda>w. u '', '' @ coerced_string rp w) xs))
      | _ \<Rightarrow> py_str rp v)"

text \<open>
  The fallback price of an estate of the enumeration: its
  \<^verbatim>\<open>"price_czk"."value_raw"\<close>, \<^verbatim>\<open>None\<close> when absent.
\<close>

definition price_fallback :: "(pystr \<times> jval) list \<Rightarrow> jval" where
  "price_fallback estate =
     (case dict_get estate (u ''price_czk'') (JObj []) of
        JObj pc \<Rightarrow> dict_get pc (u ''value_raw'') JNull
      | _ \<Rightarrow> JNull)"

text \<open>The columns that a record takes from the detail alone.\<close>

definition attribute_columns :: "pystr list" where
  "attribute_columns =
     [u ''floor'', u ''building_type'', u ''condition'', u ''furnished'', u ''elevator'',
      u ''balcony'', u ''terrace'', u ''energy_rating'', u ''ownership'', u ''parking'',
      u ''cellar'', u ''loggia'', u ''heating'', u ''apartment_type'', u ''note_about_price'']"

text \<open>
  The first row seen for each identifier: the row at index \<open>i\<close> stays when no row
  before it has its identifier.
\<close>

definition first_rows :: "csv_row list \<Rightarrow> csv_row list" where
  "first_rows rows =
     map ((!) rows)
       (filter (\<lambda>i. row_id (rows ! i) \<notin> row_id ` set (take i rows)) [0..<length rows])"

text \<open>The rows that the merge loop appends when it starts with the identifiers \<open>seen\<close>.\<close>

fun keep_new :: "pystr option set \<Rightarrow> csv_row list \<Rightarrow> csv_row list" where
  "keep_new seen [] = []"
| "keep_new seen (row # rows) =
     (if row_id row \<in> seen then keep_new seen rows
      else row # keep_new (insert (row_id row) seen) rows)"

text \<open>A row with an identifier, and a directory without the rows that have none.\<close>

definition has_id :: "csv_row \<Rightarrow> bool" where
  "has_id row = (case row_id row of Some h \<Rightarrow> h \<noteq> [] | None \<Rightarrow> False)"

definition without_idless :: "directory \<Rightarrow> directory" where
  "without_idless dir = map (\<lambda>(f, rows). (f, filter has_id rows)) dir"

section \<open>Properties of the attribute normalizer\<close>

lemma u_eq_iff [simp]: "u s = u t \<longleftrightarrow> s = t"
  unfolding u_def by (simp add: inj_map_eq_map inj_on_def)

lemma scan_items_objs:
  "\<forall>item \<in> set items. is_obj item \<Longrightarrow>
   scan_items rp items name =
     Inr (case filter (\<lambda>item. item_label item = JStr name) items of
            [] \<Rightarrow> None | item # _ \<Rightarrow> Some (value_string rp (item_value item)))"
proof (induction items)
  case Nil
  then show ?case by simp
next
  case (Cons item items)
  then obtain d where "item = JObj d" by (cases item) auto
  with Cons show ?case by simp
qed

lemma extract_attribute_objs:
  "\<forall>item \<in> set items. is_obj item \<Longrightarrow>
   extract_attribute rp items possible_names =
     Inr (case matches_in_order items possible_names of
            [] \<Rightarrow> [] | item # _ \<Rightarrow> value_string rp (item_value item))"
proof (induction possible_names)
  case Nil
  then show ?case by (simp add: matches_in_order_def)
next
  case (Cons name names)
  show ?case
  proof (cases "filter (\<lambda>item. item_label item = JStr name) items")
    case Nil
    with Cons show ?thesis by (simp add: scan_items_objs matches_in_order_def)
  next
    case (Cons item rest)
    with Cons.prems show ?thesis by (simp add: scan_items_objs matches_in_order_def)
  qed
qed

lemma no_match_empty:
  "\<forall>name \<in> set possible_names. \<forall>item \<in> set items. item_label item \<noteq> JStr name \<Longrightarrow>
   matches_in_order items possible_names = []"
  by (auto simp: matches_in_order_def filter_empty_conv)

lemma str_join_concat: "str_join sep (p # ps) = p @ concat (map (\<lambda>q. sep @ q) ps)"
  by (induction ps arbitrary: p) auto

lemma py_str_element_value: "py_str rp (element_value v) = coerced_string rp v"
  by (cases v) (auto simp: coerced_string_def dict_get_def split: option.splits)

lemma value_string_normalized: "value_string rp v = normalized_string rp v"
proof (cases v)
  case (JList vs)
  then show ?thesis
    by (cases vs)
      (simp_all add: normalized_string_def str_join_concat py_str_element_value comp_def)
qed (simp_all add: normalized_string_def)

text \<open>
  Claim C1. When every item is an object, \<open>extract_attribute\<close> does not raise and
  returns the normalized string of the value of the first match, the candidates being
  tried in order and for each candidate the items in their original order, a match
  being an item whose label is exactly the candidate; when no label equals any
  candidate it returns the empty string.
\<close>

theorem extract_attribute_first_match:
  assumes "\<forall>item \<in> set items. is_obj item"
  shows "extract_attribute rp items possible_names =
           Inr (case matches_in_order items possible_names of
                  [] \<Rightarrow> [] | item # _ \<Rightarrow> normalized_string rp (item_value item))
         \<and> ((\<forall>name \<in> set possible_names. \<forall>item \<in> set items. item_label item \<noteq> JStr name)
              \<longrightarrow> extract_attribute rp items possible_names = Inr [])"
  using assms
  by (simp add: extract_attribute_objs no_match_empty value_string_normalized
      split: list.splits)

theorem extract_attribute_first_match_witness:
  "list_all is_obj
     [JObj [(u ''name'', JStr (u ''b'')), (u ''value'', JStr (u ''x''))],
      JObj [(u ''name'', JStr (u ''a'')), (u ''value'', JInt 7)],
      JObj [(u ''name'', JStr (u ''a'')), (u ''value'', JNull)],
      JObj [(u ''name'', JStr (u ''n'')), (u ''value'', JNull)],
      JObj [(u ''name'', JStr (u ''l'')),
            (u ''value'', JList [JObj [(u ''value'', JStr (u ''yes''))], JNull, JInt 3])]]
   \<and> extract_attribute (\<lambda>v. [])
        [JObj [(u ''name'', JStr (u ''b'')), (u ''value'', JStr (u ''x''))],
         JObj [(u ''name'', JStr (u ''a'')), (u ''value'', JInt 7)],
         JObj [(u ''name'', JStr (u ''a'')), (u ''value'', JNull)],
         JObj [(u ''name'', JStr (u ''n'')), (u ''value'', JNull)],
         JObj [(u ''name'', JStr (u ''l'')),
               (u ''value'', JList [JObj [(u ''value'', JStr (u ''yes''))], JNull, JInt 3])]]
        [u ''c'', u ''a'', u ''b''] = Inr (u ''7'')
   \<and> extract_attribute (\<lambda>v. [])
        [JObj [(u ''name'', JStr (u ''b'')), (u ''value'', JStr (u ''x''))],
         JObj [(u ''name'', JStr (u ''a'')), (u ''value'', JInt 7)],
         JObj [(u ''name'', JStr (u ''a'')), (u ''value'', JNull)],
         JObj [(u ''name'', JStr (u ''n'')), (u ''value'', JNull)],
         JObj [(u ''name'', JStr (u ''l'')),
               (u ''value'', JList [JObj [(u ''value'', JStr (u ''yes''))], JNull, JInt 3])]]
        [u ''n'', u ''a''] = Inr []
   \<and> extract_attribute (\<lambda>v. [])
        [JObj [(u ''name'', JStr (u ''b'')), (u ''value'', JStr (u ''x''))],
         JObj [(u ''name'', JStr (u ''a'')), (u ''value'', JInt 7)],
         JObj [(u ''name'', JStr (u ''a'')), (u ''value'', JNull)],
         JObj [(u ''name'', JStr (u ''n'')), (u ''value'', JNull)],
         JObj [(u ''name'', JStr (u ''l'')),
               (u ''value'', JList [JObj [(u ''value'', JStr (u ''yes''))], JNull, JInt 3])]]
        [u ''l'', u ''a''] = Inr (u ''yes, None, 3'')
   \<and> extract_attribute (\<lambda>v. [])
        [JObj [(u ''name'', JStr (u ''b'')), (u ''value'', JStr (u ''x''))],
         JObj [(u ''name'', JStr (u ''a'')), (u ''value'', JInt 7)],
         JObj [(u ''name'', JStr (u ''a'')), (u ''value'', JNull)],
         JObj [(u ''name'', JStr (u ''n'')), (u ''value'', JNull)],
         JObj [(u ''name'', JStr (u ''l'')),
               (u ''value'', JList [JObj [(u ''value'', JStr (u ''yes''))], JNull, JInt 3])]]
        [u ''c'', u ''ab''] = Inr []"
proof -
  let ?items =
    "[JObj [(u ''name'', JStr (u ''b'')), (u ''value'', JStr (u ''x''))],
      JObj [(u ''name'', JStr (u ''a'')), (u ''value'', JInt 7)],
      JObj [(u ''name'', JStr (u ''a'')), (u ''value'', JNull)],
      JObj [(u ''name'', JStr (u ''n'')), (u ''value'', JNull)],
      JObj [(u ''name'', JStr (u ''l'')),
            (u ''value'', JList [JObj [(u ''value'', JStr (u ''yes''))], JNull, JInt 3])]]"
  show ?thesis
    using extract_attribute_first_match [of ?items "\<lambda>v. []" "[u ''c'', u ''a'', u ''b'']"]
      extract_attribute_first_match [of ?items "\<lambda>v. []" "[u ''n'', u ''a'']"]
      extract_attribute_first_match [of ?items "\<lambda>v. []" "[u ''l'', u ''a'']"]
      extract_attribute_first_match [of ?items "\<lambda>v. []" "[u ''c'', u ''ab'']"]
    by (simp add: matches_in_order_def dict_get_def normalized_string_def coerced_string_def
        str_int_def str_nat.simps u_def)
qed

text \<open>
  Claim C2. When every item is an object and the value of the first match is a list,
  \<open>extract_attribute\<close> returns the coerced strings of the elements of that list in
  their order, a comma and a space between two neighbours; an element that is an object
  with a \<^verbatim>\<open>"value"\<close> sub-field is coerced through that sub-field, any other element
  directly.
\<close>

theorem extract_attribute_list_value:
  assumes "\<forall>item \<in> set items. is_obj item"
    and "matches_in_order items possible_names = item # rest"
    and "item_value item = JList vs"
  shows "extract_attribute rp items possible_names =
           Inr (case vs of
                  [] \<Rightarrow> []
                | v # ws \<Rightarrow>
                    coerced_string rp v @ concat (map (\<lambda>w. u '', '' @ coerced_string rp w) ws))"
proof -
  have "extract_attribute rp items possible_names = Inr (value_string rp (JList vs))"
    using assms by (simp add: extract_attribute_objs)
  also have "value_string rp (JList vs) =
      (case vs of
         [] \<Rightarrow> []
       | v # ws \<Rightarrow> coerced_string rp v @ concat (map (\<lambda>w. u '', '' @ coerced_string rp w) ws))"
    by (cases vs) (simp_all add: str_join_concat py_str_element_value comp_def)
  finally show ?thesis .
qed

theorem extract_attribute_list_value_witness:
  "list_all is_obj
     [JObj [(u ''name'', JStr (u ''b'')), (u ''value'', JStr (u ''x''))],
      JObj [(u ''name'', JStr (u ''a'')),
            (u ''value'', JList [JInt 12, JObj [(u ''value'', JStr (u ''yes''))],
                                 JNull, JStr (u ''no'')])]]
   \<and> extract_attribute (\<lambda>v. [])
        [JObj [(u ''name'', JStr (u ''b'')), (u ''value'', JStr (u ''x''))],
         JObj [(u ''name'', JStr (u ''a'')),
               (u ''value'', JList [JInt 12, JObj [(u ''value'', JStr (u ''yes''))],
                                    JNull, JStr (u ''no'')])]]
        [u ''a'', u ''b''] = Inr (u ''12, yes, None, no'')"
  using extract_attribute_list_value [of
        "[JObj [(u ''name'', JStr (u ''b'')), (u ''value'', JStr (u ''x''))],
          JObj [(u ''name'', JStr (u ''a'')),
                (u ''value'', JList [JInt 12, JObj [(u ''value'', JStr (u ''yes''))],
                                     JNull, JStr (u ''no'')])]]"
        "[u ''a'', u ''b'']"
        "JObj [(u ''name'', JStr (u ''a'')),
               (u ''value'', JList [JInt 12, JObj [(u ''value'', JStr (u ''yes''))],
                                    JNull, JStr (u ''no'')])]"
        "[JObj [(u ''name'', JStr (u ''b'')), (u ''value'', JStr (u ''x''))]]"
        "[JInt 12, JObj [(u ''value'', JStr (u ''yes''))], JNull, JStr (u ''no'')]"
        "\<lambda>v. []"]
  by (simp add: matches_in_order_def dict_get_def coerced_string_def str_int_def str_nat.simps
        u_def)

section \<open>Properties of the filter phase\<close>

text \<open>
  Claim C4. For every set of existing identifiers and every list of candidates, the
  filter phase returns exactly the candidates whose identifier, as a string, is not in
  the set, in the order of the list.
\<close>

theorem filter_existing_exact:
  "filter_existing rp existing_ids all_ids =
     filter (\<lambda>(h, b). py_str rp h \<notin> existing_ids) all_ids"
  by (simp add: filter_existing_def)

theorem filter_existing_exact_witness:
  "filter_existing (\<lambda>v. []) {u ''12'', u ''b''}
     [(JInt 12, []), (JStr (u ''a''), []), (JStr (u ''b''), []), (JInt 7, [(u ''name'', JNull)])]
   = [(JStr (u ''a''), []), (JInt 7, [(u ''name'', JNull)])]"
  using filter_existing_exact [of "\<lambda>v. []" "{u ''12'', u ''b''}"
     "[(JInt 12, []), (JStr (u ''a''), []), (JStr (u ''b''), []), (JInt 7, [(u ''name'', JNull)])]"]
  by (simp add: str_int_def str_nat.simps u_def)

section \<open>Properties of the text extractors\<close>

text \<open>
  Claim C7. The room-count extractor returns \<^verbatim>\<open>2+kk\<close> for \<^verbatim>\<open>2+kk byt\<close>, the
  token \<^verbatim>\<open>atypicky\<close> for the name Atypicky mezonet written with U+00FD as its
  eighth letter, and the empty string for the name garsoniera written with U+00E9,
  whatever the tables of the library are above the code points of these names.
\<close>

theorem extract_rooms_examples:
  "extract_rooms_from_name rp nd low (JStr (u ''2+kk byt'')) = u ''2+kk''
   \<and> extract_rooms_from_name rp nd low (JStr (u ''Atypick'' @ [253] @ u '' mezonet'')) =
       u ''atypicky''
   \<and> extract_rooms_from_name rp nd low (JStr (u ''garsoni'' @ [233] @ u ''ra'')) = []"
  by (simp add: extract_rooms_from_name_def u_def re_digit_def re_k_def py_lower_def
        lower_latin1_def)

theorem extract_rooms_examples_witness:
  "extract_rooms_from_name (\<lambda>v. []) (\<lambda>c. False) (\<lambda>s i. [s ! i]) (JStr (u ''2+kk byt'')) =
     [50, 43, 107, 107]
   \<and> extract_rooms_from_name (\<lambda>v. []) (\<lambda>c. False) (\<lambda>s i. [s ! i])
        (JStr (u ''garsoni'' @ [233] @ u ''ra'')) = []"
  using extract_rooms_examples [of "\<lambda>v. []" "\<lambda>c. False" "\<lambda>s i. [s ! i]"]
  by (simp add: u_def)

section \<open>Properties of the record\<close>

lemma build_listing_eq:
  "build_listing rp nd low today hash_id basic_info detail =
     [(u ''scrape_date'', JStr today),
      (u ''hash_id'', hash_id),
      (u ''name'', dict_get basic_info (u ''name'') (JStr [])),
      (u ''locality'', dict_get basic_info (u ''locality'') (JStr [])),
      (u ''district'', JStr (parse_district rp nd (dict_get basic_info (u ''locality'') (JStr [])))),
      (u ''neighborhood'',
         JStr (parse_neighborhood rp nd (dict_get basic_info (u ''locality'') (JStr [])))),
      (u ''price_czk'',
         py_or (dict_get basic_info (u ''price'') JNull) (dict_get basic_info (u ''price_czk'') JNull)),
      (u ''rooms'',
         JStr (extract_rooms_from_name rp nd low (dict_get basic_info (u ''name'') (JStr [])))),
      (u ''size_m2'',
         JStr (if dict_get detail (u ''size_m2'') [] \<noteq> [] then dict_get detail (u ''size_m2'') []
               else extract_size_from_name rp nd (dict_get basic_info (u ''name'') (JStr []))))]
     @ map (\<lambda>c. (c, JStr (dict_get detail c []))) attribute_columns"
  by (simp add: build_listing_def Let_def ATTRIBUTE_MAP_def dict_set_def dict_has_def
        attribute_columns_def)

lemma basic_info_price:
  "basic_info_of estate = Inr basic_info \<Longrightarrow>
   dict_get basic_info (u ''price'') JNull = dict_get estate (u ''price'') JNull
   \<and> dict_get basic_info (u ''price_czk'') JNull = price_fallback estate"
  by (auto simp: basic_info_of_def price_fallback_def dict_get_def split: jval.splits)

text \<open>
  Claim C9. In the record built from an estate of the enumeration, \<open>price_czk\<close> is
  the estate's \<^verbatim>\<open>"price"\<close> when that is truthy and the fallback
  \<^verbatim>\<open>"price_czk"."value_raw"\<close> otherwise; a price of 0 gives the fallback, and when
  both are absent the field is \<^verbatim>\<open>None\<close>, not the empty string.
\<close>

theorem price_czk_prefers_price:
  assumes "basic_info_of estate = Inr basic_info"
  shows "map_of (build_listing rp nd low today hash_id basic_info detail) (u ''price_czk'') =
           Some (if truthy (dict_get estate (u ''price'') JNull)
                 then dict_get estate (u ''price'') JNull else price_fallback estate)
         \<and> (dict_get estate (u ''price'') JNull = JInt 0 \<longrightarrow>
              map_of (build_listing rp nd low today hash_id basic_info detail) (u ''price_czk'') =
                Some (price_fallback estate))
         \<and> (map_of estate (u ''price'') = None \<and> map_of estate (u ''price_czk'') = None \<longrightarrow>
              map_of (build_listing rp nd low today hash_id basic_info detail) (u ''price_czk'') =
                Some JNull)"
  using basic_info_price [OF assms]
  by (simp add: build_listing_eq py_or_def price_fallback_def dict_get_def)

theorem price_czk_prefers_price_witness:
  "basic_info_of [(u ''hash_id'', JInt 1), (u ''price'', JInt 0),
                  (u ''price_czk'', JObj [(u ''value_raw'', JInt 15000)])] =
     Inr [(u ''name'', JStr []), (u ''locality'', JStr []), (u ''price'', JInt 0),
          (u ''price_czk'', JInt 15000)]
   \<and> map_of (build_listing (\<lambda>v. []) (\<lambda>c. False) (\<lambda>s i. []) (u ''2024-05-01'') (JInt 1)
               [(u ''name'', JStr []), (u ''locality'', JStr []), (u ''price'', JInt 0),
                (u ''price_czk'', JInt 15000)] [])
        (u ''price_czk'') = Some (JInt 15000)
   \<and> basic_info_of [(u ''hash_id'', JInt 2)] =
     Inr [(u ''name'', JStr []), (u ''locality'', JStr []), (u ''price'', JNull),
          (u ''price_czk'', JNull)]
   \<and> map_of (build_listing (\<lambda>v. []) (\<lambda>c. False) (\<lambda>s i. []) (u ''2024-05-01'') (JInt 2)
               [(u ''name'', JStr []), (u ''locality'', JStr []), (u ''price'', JNull),
                (u ''price_czk'', JNull)] [])
        (u ''price_czk'') = Some JNull"
proof -
  have b1: "basic_info_of [(u ''hash_id'', JInt 1), (u ''price'', JInt 0),
                  (u ''price_czk'', JObj [(u ''value_raw'', JInt 15000)])] =
     Inr [(u ''name'', JStr []), (u ''locality'', JStr []), (u ''price'', JInt 0),
          (u ''price_czk'', JInt 15000)]"
    by (simp add: basic_info_of_def dict_get_def)
  have b2: "basic_info_of [(u ''hash_id'', JInt 2)] =
     Inr [(u ''name'', JStr []), (u ''locality'', JStr []), (u ''price'', JNull),
          (u ''price_czk'', JNull)]"
    by (simp add: basic_info_of_def dict_get_def)
  show ?thesis
    using b1 b2
      price_czk_prefers_price [OF b1, of "\<lambda>v. []" "\<lambda>c. False" "\<lambda>s i. []" "u ''2024-05-01''" "JInt 1" "[]"]
      price_czk_prefers_price [OF b2, of "\<lambda>v. []" "\<lambda>c. False" "\<lambda>s i. []" "u ''2024-05-01''" "JInt 2" "[]"]
    by (simp add: price_fallback_def dict_get_def)
qed

lemma build_listing_keys:
  "map fst (build_listing rp nd low today hash_id basic_info detail) =
     [u ''scrape_date'', u ''hash_id'', u ''name'', u ''locality'', u ''district'',
      u ''neighborhood'', u ''price_czk'', u ''rooms'', u ''size_m2''] @ attribute_columns"
  by (simp add: build_listing_eq comp_def)

lemma writer_row_build_listing:
  "writer_row rp (build_listing rp' nd low today hash_id basic_info detail) =
     (if list_ex (list_ex is_surrogate)
           (map (\<lambda>c. csv_cell rp
                   (dict_get (build_listing rp' nd low today hash_id basic_info detail) c (JStr [])))
              CSV_COLUMNS)
      then Inl UnicodeEncodeError
      else Inr (map (\<lambda>c. csv_cell rp
                  (dict_get (build_listing rp' nd low today hash_id basic_info detail) c (JStr [])))
             CSV_COLUMNS))"
proof -
  have "list_all (\<lambda>k. k \<in> set CSV_COLUMNS)
          (map fst (build_listing rp' nd low today hash_id basic_info detail))"
    unfolding build_listing_keys by (simp add: attribute_columns_def CSV_COLUMNS_def)
  then have "list_all (\<lambda>(k, v). k \<in> set CSV_COLUMNS)
          (build_listing rp' nd low today hash_id basic_info detail)"
    by (simp add: list_all_iff case_prod_beta)
  then show ?thesis by (simp add: writer_row_def Let_def)
qed

text \<open>
  Claim C6, as stated: a field of a record that is not resolved is never null. Here
  the enumeration gives no price for the estate, the detail gives a size, and the
  \<open>price_czk\<close> field of the record built from them is \<^verbatim>\<open>None\<close>.
\<close>

theorem record_price_none_counterexample:
  "basic_info_of [(u ''hash_id'', JInt 2), (u ''name'', JStr (u ''Byt 3+1'')),
                  (u ''locality'', JStr (u ''Brno''))] =
     Inr [(u ''name'', JStr (u ''Byt 3+1'')), (u ''locality'', JStr (u ''Brno'')),
          (u ''price'', JNull), (u ''price_czk'', JNull)]
   \<and> detail_of (\<lambda>v. [])
        (JObj [(u ''items'',
                JList [JObj [(u ''name'', JStr (u ''Plocha'')), (u ''value'', JInt 55)]])]) =
     Inr ((u ''size_m2'', u ''55'') # map (\<lambda>c. (c, [])) attribute_columns)
   \<and> map_of (build_listing (\<lambda>v. []) (\<lambda>c. False) (\<lambda>s i. []) (u ''2024-05-01'') (JInt 2)
            [(u ''name'', JStr (u ''Byt 3+1'')), (u ''locality'', JStr (u ''Brno'')),
             (u ''price'', JNull), (u ''price_czk'', JNull)]
            ((u ''size_m2'', u ''55'') # map (\<lambda>c. (c, [])) attribute_columns))
        (u ''price_czk'') = Some JNull"
proof -
  have "detail_of (\<lambda>v. [])
        (JObj [(u ''items'',
                JList [JObj [(u ''name'', JStr (u ''Plocha'')), (u ''value'', JInt 55)]])]) =
     Inr ((u ''size_m2'', u ''55'') # map (\<lambda>c. (c, [])) attribute_columns)"
    by (simp add: detail_of_def dict_get_def ATTRIBUTE_MAP_def attribute_columns_def
        str_int_def str_nat.simps u_def)
  then show ?thesis
    by (simp add: build_listing_eq py_or_def dict_get_def basic_info_of_def)
qed

text \<open>
  Claim C6, amended. A record holds each of the fixed columns once and no other key,
  and its row, when the writer can encode it, has one cell for each column, in the
  fixed order. The fields \<open>hash_id\<close>, \<open>name\<close> and \<open>locality\<close> are copied from
  the enumeration as they are. The fields that the scraper derives or takes from the
  detail are strings: \<open>district\<close>, \<open>neighborhood\<close>, \<open>rooms\<close> and \<open>size_m2\<close>
  are the empty string when their pattern is not found (for \<open>size_m2\<close>, when the
  detail has no size either), and an attribute field is the string of the detail, the
  empty string when the detail has none. The \<open>price_czk\<close> field is the value of
  \<^verbatim>\<open>price or price_czk\<close>, which may be \<^verbatim>\<open>None\<close>; the writer persists
  \<^verbatim>\<open>None\<close> as an empty cell.
\<close>

theorem record_columns_fixed:
  "distinct (map fst (build_listing rp nd low today hash_id basic_info detail))
   \<and> set (map fst (build_listing rp nd low today hash_id basic_info detail)) = set CSV_COLUMNS
   \<and> (\<exists>cells. length cells = length CSV_COLUMNS
         \<and> cells = map (\<lambda>c. csv_cell rp
                      (dict_get (build_listing rp nd low today hash_id basic_info detail) c JNull))
                    CSV_COLUMNS
         \<and> writer_row rp (build_listing rp nd low today hash_id basic_info detail) =
             (if list_ex (list_ex is_surrogate) cells then Inl UnicodeEncodeError
              else Inr cells))
   \<and> map_of (build_listing rp nd low today hash_id basic_info detail) (u ''scrape_date'') =
       Some (JStr today)
   \<and> map_of (build_listing rp nd low today hash_id basic_info detail) (u ''hash_id'') =
       Some hash_id
   \<and> map_of (build_listing rp nd low today hash_id basic_info detail) (u ''name'') =
       Some (dict_get basic_info (u ''name'') (JStr []))
   \<and> map_of (build_listing rp nd low today hash_id basic_info detail) (u ''locality'') =
       Some (dict_get basic_info (u ''locality'') (JStr []))
   \<and> (\<forall>c \<in> set ([u ''scrape_date'', u ''district'', u ''neighborhood'', u ''rooms'',
                     u ''size_m2''] @ attribute_columns).
         \<exists>s. map_of (build_listing rp nd low today hash_id basic_info detail) c = Some (JStr s))
   \<and> (re_search (praha_number nd)
          (py_str rp (dict_get basic_info (u ''locality'') (JStr []))) = None \<longrightarrow>
        map_of (build_listing rp nd low today hash_id basic_info detail) (u ''district'') =
          Some (JStr []))
   \<and> (re_search (neighborhood_pattern nd)
          (py_str rp (dict_get basic_info (u ''locality'') (JStr []))) = None \<longrightarrow>
        map_of (build_listing rp nd low today hash_id basic_info detail) (u ''neighborhood'') =
          Some (JStr []))
   \<and> (re_search (rooms_pattern nd)
          (py_str rp (dict_get basic_info (u ''name'') (JStr []))) = None
        \<and> \<not> py_in (u ''atypick'')
               (py_lower low (py_str rp (dict_get basic_info (u ''name'') (JStr [])))) \<longrightarrow>
        map_of (build_listing rp nd low today hash_id basic_info detail) (u ''rooms'') =
          Some (JStr []))
   \<and> (dict_get detail (u ''size_m2'') [] \<noteq> [] \<longrightarrow>
        map_of (build_listing rp nd low today hash_id basic_info detail) (u ''size_m2'') =
          Some (JStr (dict_get detail (u ''size_m2'') [])))
   \<and> (dict_get detail (u ''size_m2'') [] = []
        \<and> re_search (size_pattern nd)
             (py_str rp (dict_get basic_info (u ''name'') (JStr []))) = None \<longrightarrow>
        map_of (build_listing rp nd low today hash_id basic_info detail) (u ''size_m2'') =
          Some (JStr []))
   \<and> (\<forall>c \<in> set attribute_columns.
         map_of (build_listing rp nd low today hash_id basic_info detail) c =
           Some (JStr (dict_get detail c [])))
   \<and> map_of (build_listing rp nd low today hash_id basic_info detail) (u ''price_czk'') =
       Some (py_or (dict_get basic_info (u ''price'') JNull)
                   (dict_get basic_info (u ''price_czk'') JNull))
   \<and> csv_cell rp JNull = []"
proof -
  let ?L = "build_listing rp nd low today hash_id basic_info detail"
  have keys: "distinct (map fst ?L)" "set (map fst ?L) = set CSV_COLUMNS"
    unfolding build_listing_keys by (simp_all add: attribute_columns_def CSV_COLUMNS_def) auto
  have cells: "map (\<lambda>c. csv_cell rp (dict_get ?L c (JStr []))) CSV_COLUMNS =
               map (\<lambda>c. csv_cell rp (dict_get ?L c JNull)) CSV_COLUMNS"
    by (simp add: build_listing_eq CSV_COLUMNS_def attribute_columns_def dict_get_def)
  have row: "\<exists>cells. length cells = length CSV_COLUMNS
         \<and> cells = map (\<lambda>c. csv_cell rp (dict_get ?L c JNull)) CSV_COLUMNS
         \<and> writer_row rp ?L =
             (if list_ex (list_ex is_surrogate) cells then Inl UnicodeEncodeError
              else Inr cells)"
    unfolding writer_row_build_listing cells by simp
  have copied: "map_of ?L (u ''scrape_date'') = Some (JStr today)"
    "map_of ?L (u ''hash_id'') = Some hash_id"
    "map_of ?L (u ''name'') = Some (dict_get basic_info (u ''name'') (JStr []))"
    "map_of ?L (u ''locality'') = Some (dict_get basic_info (u ''locality'') (JStr []))"
    by (simp_all add: build_listing_eq)
  have strs: "\<forall>c \<in> set ([u ''scrape_date'', u ''district'', u ''neighborhood'', u ''rooms'',
                     u ''size_m2''] @ attribute_columns).
         \<exists>s. map_of ?L c = Some (JStr s)"
    by (simp add: build_listing_eq attribute_columns_def)
  have district: "re_search (praha_number nd)
          (py_str rp (dict_get basic_info (u ''locality'') (JStr []))) = None \<longrightarrow>
        map_of ?L (u ''district'') = Some (JStr [])"
    by (simp add: build_listing_eq parse_district_def)
  have neighborhood: "re_search (neighborhood_pattern nd)
          (py_str rp (dict_get basic_info (u ''locality'') (JStr []))) = None \<longrightarrow>
        map_of ?L (u ''neighborhood'') = Some (JStr [])"
    by (simp add: build_listing_eq parse_neighborhood_def)
  have rooms: "re_search (rooms_pattern nd)
          (py_str rp (dict_get basic_info (u ''name'') (JStr []))) = None
        \<and> \<not> py_in (u ''atypick'')
               (py_lower low (py_str rp (dict_get basic_info (u ''name'') (JStr [])))) \<longrightarrow>
        map_of ?L (u ''rooms'') = Some (JStr [])"
    by (simp add: build_listing_eq extract_rooms_from_name_def)
  have size1: "dict_get detail (u ''size_m2'') [] \<noteq> [] \<longrightarrow>
        map_of ?L (u ''size_m2'') = Some (JStr (dict_get detail (u ''size_m2'') []))"
    by (simp add: build_listing_eq)
  have size2: "dict_get detail (u ''size_m2'') [] = []
        \<and> re_search (size_pattern nd)
             (py_str rp (dict_get basic_info (u ''name'') (JStr []))) = None \<longrightarrow>
        map_of ?L (u ''size_m2'') = Some (JStr [])"
    by (simp add: build_listing_eq extract_size_from_name_def)
  have attrs: "\<forall>c \<in> set attribute_columns. map_of ?L c = Some (JStr (dict_get detail c []))"
    by (simp add: build_listing_eq attribute_columns_def)
  have price: "map_of ?L (u ''price_czk'') =
       Some (py_or (dict_get basic_info (u ''price'') JNull)
                   (dict_get basic_info (u ''price_czk'') JNull))"
    by (simp add: build_listing_eq)
  have none: "csv_cell rp JNull = []"
    by (simp add: csv_cell_def)
  show ?thesis
    by (intro conjI keys row copied strs district neighborhood rooms size1 size2 attrs price
        none)
qed

theorem record_columns_fixed_witness:
  "map fst (build_listing (\<lambda>v. []) (\<lambda>c. False) (\<lambda>s i. []) (u ''2024-05-01'') (JInt 2)
            [(u ''name'', JStr (u ''Byt'')), (u ''locality'', JStr (u ''Brno'')),
             (u ''price'', JNull), (u ''price_czk'', JNull)]
            (map (\<lambda>c. (c, [])) (u ''size_m2'' # attribute_columns))) =
     [u ''scrape_date'', u ''hash_id'', u ''name'', u ''locality'', u ''district'',
      u ''neighborhood'', u ''price_czk'', u ''rooms'', u ''size_m2''] @ attribute_columns
   \<and> map (map_of (build_listing (\<lambda>v. []) (\<lambda>c. False) (\<lambda>s i. []) (u ''2024-05-01'') (JInt 2)
            [(u ''name'', JStr (u ''Byt'')), (u ''locality'', JStr (u ''Brno'')),
             (u ''price'', JNull), (u ''price_czk'', JNull)]
            (map (\<lambda>c. (c, [])) (u ''size_m2'' # attribute_columns))))
        [u ''hash_id'', u ''name'', u ''locality'', u ''district'', u ''neighborhood'',
         u ''price_czk'', u ''size_m2'', u ''rooms'', u ''floor''] =
     [Some (JInt 2), Some (JStr (u ''Byt'')), Some (JStr (u ''Brno'')), Some (JStr []),
      Some (JStr []), Some JNull, Some (JStr []), Some (JStr []), Some (JStr [])]"
proof -
  have r: "re_search (praha_number (\<lambda>c. False)) (u ''Brno'') = None"
    "re_search (neighborhood_pattern (\<lambda>c. False)) (u ''Brno'') = None"
    "re_search (rooms_pattern (\<lambda>c. False)) (u ''Byt'') = None"
    "\<not> py_in (u ''atypick'') (py_lower (\<lambda>s i. []) (u ''Byt''))"
    "re_search (size_pattern (\<lambda>c. False)) (u ''Byt'') = None"
    by (simp_all add: u_def praha_number_def neighborhood_pattern_def size_pattern_def
        re_digit_def py_lower_def lower_latin1_def)
  show ?thesis
    using r record_columns_fixed [of "\<lambda>v. []" "\<lambda>c. False" "\<lambda>s i. []" "u ''2024-05-01''" "JInt 2"
            "[(u ''name'', JStr (u ''Byt'')), (u ''locality'', JStr (u ''Brno'')),
              (u ''price'', JNull), (u ''price_czk'', JNull)]"
            "map (\<lambda>c. (c, [])) (u ''size_m2'' # attribute_columns)"]
    by (simp add: build_listing_keys attribute_columns_def dict_get_def py_or_def)
qed

section \<open>Properties of the merge and of the identifier store\<close>

lemma merge_rows_keep_new:
  "merge_rows rows (all_rows, seen, n) =
     (all_rows @ keep_new seen rows, seen \<union> row_id ` set rows, n + length rows)"
  by (induction rows arbitrary: all_rows seen n) auto

lemma keep_new_append:
  "keep_new seen (xs @ ys) = keep_new seen xs @ keep_new (seen \<union> row_id ` set xs) ys"
  by (induction xs arbitrary: seen) (auto simp: insert_absorb)

lemma merge_files_keep_new:
  "merge_files files (all_rows, seen, counts) =
     (all_rows @ keep_new seen (concat (map snd files)),
      seen \<union> row_id ` set (concat (map snd files)),
      counts @ map (\<lambda>(f, rows). (f, length rows)) files)"
proof (induction files arbitrary: all_rows seen counts)
  case Nil
  then show ?case by simp
next
  case (Cons entry files)
  obtain f rows where entry: "entry = (f, rows)" by (cases entry)
  show ?case
    unfolding entry
    by (simp add: merge_rows_keep_new Cons.IH keep_new_append Un_assoc image_Un)
qed

lemma keep_new_indices:
  "keep_new seen rows =
     map ((!) rows)
       (filter (\<lambda>i. row_id (rows ! i) \<notin> seen \<union> row_id ` set (take i rows)) [0..<length rows])"
proof (induction rows arbitrary: seen)
  case Nil
  then show ?case by simp
next
  case (Cons row rows)
  have upt: "[0..<length (row # rows)] = 0 # map Suc [0..<length rows]"
    by (simp add: upt_conv_Cons map_Suc_upt del: upt_Suc)
  show ?case
    unfolding upt
    apply (simp add: Cons.IH filter_map comp_def del: upt_Suc)
    apply (intro conjI impI arg_cong [where f = "map ((!) rows)"] filter_cong)
      apply auto
    done
qed

lemma keep_new_first_rows: "keep_new {} rows = first_rows rows"
  by (simp add: keep_new_indices first_rows_def)

lemma keep_new_filter_key:
  "filter (\<lambda>r. row_id r = k) (keep_new seen rows) =
     (if k \<in> seen then [] else take 1 (filter (\<lambda>r. row_id r = k) rows))"
proof (induction rows arbitrary: seen)
  case Nil
  then show ?case by simp
next
  case (Cons row rows)
  then show ?case by auto
qed

lemma keep_new_distinct: "distinct (map row_id (keep_new seen rows))"
  and keep_new_set: "row_id ` set (keep_new seen rows) = row_id ` set rows - seen"
  by (induction rows arbitrary: seen) auto

lemma length_keep_new: "length (keep_new {} rows) = card (row_id ` set rows)"
proof -
  have "length (keep_new {} rows) = length (map row_id (keep_new {} rows))" by simp
  also have "\<dots> = card (set (map row_id (keep_new {} rows)))"
    by (rule distinct_card [symmetric]) (rule keep_new_distinct)
  also have "\<dots> = card (row_id ` set rows)"
    using keep_new_set [of "{}" rows] by simp
  finally show ?thesis .
qed

lemma merge_data_files_report:
  assumes "merge_data_files rp (Some dir) = Inr (dir', Some report)"
  shows "csv_files_of dir \<noteq> []"
    and "unique_listings report = length (first_rows (concat (map snd (csv_files_of dir))))"
    and "writer_rows rp (map row_dict (first_rows (concat (map snd (csv_files_of dir))))) =
           Inr (tl (combined report))"
    and "dir' = write_file dir (u ''sreality_combined.csv'') (dict_reader (combined report))"
    and "file_counts report = map (\<lambda>(f, rows). (f, length rows)) (csv_files_of dir)"
  using assms
  by (auto simp: merge_data_files_def merge_files_keep_new keep_new_first_rows save_to_csv_def
      split: if_splits sum.splits)

lemma filter_replace_entry:
  "filter (\<lambda>(f, rows). P f \<and> f \<noteq> k) (map (\<lambda>(g, old). if g = k then (g, new) else (g, old)) dir) =
   filter (\<lambda>(f, rows). P f \<and> f \<noteq> k) dir"
  by (induction dir) (auto split: if_splits)

lemma csv_files_of_write_file:
  "csv_files_of (write_file dir (u ''sreality_combined.csv'') rows) = csv_files_of dir"
  by (simp add: csv_files_of_def write_file_def filter_replace_entry)

lemma dict_has_replace_entry:
  "dict_has (map (\<lambda>(g, old). if g = f then (g, new) else (g, old)) dir) f = dict_has dir f"
  by (induction dir) (auto simp: dict_has_def)

lemma replace_entry_absent:
  "\<not> dict_has dir f \<Longrightarrow> map (\<lambda>(g, old). if g = f then (g, new) else (g, old)) dir = dir"
  by (induction dir) (auto simp: dict_has_def split: if_splits)

lemma dict_has_snoc: "dict_has (dir @ [(f, rows)]) f"
  by (simp add: dict_has_def map_add_def split: option.splits)

lemma write_file_twice: "write_file (write_file dir f rows) f rows = write_file dir f rows"
  by (cases "dict_has dir f")
    (auto simp: write_file_def dict_has_replace_entry dict_has_snoc replace_entry_absent
      split: prod.splits)

lemma dict_has_write_file: "dict_has (write_file dir f rows) f"
  by (simp add: write_file_def dict_has_replace_entry dict_has_snoc)

lemma merge_data_files_again:
  assumes "merge_data_files rp (Some dir) = Inr (dir', Some report)"
  shows "merge_data_files rp (Some dir') = Inr (dir', Some report)"
proof -
  have d: "dir' = write_file dir (u ''sreality_combined.csv'') (dict_reader (combined report))"
    by (rule merge_data_files_report [OF assms])
  have c: "csv_files_of dir' = csv_files_of dir"
    unfolding d by (rule csv_files_of_write_file)
  show ?thesis
    using assms unfolding merge_data_files_def option.case c
    by (auto simp: d write_file_twice split: if_splits prod.splits sum.splits)
qed

lemma rows_of_permuted_directory:
  assumes "mset dir2 = mset dir"
  shows "set (concat (map snd (csv_files_of dir2))) = set (concat (map snd (csv_files_of dir)))"
proof -
  have "mset (csv_files_of dir2) = mset (csv_files_of dir)"
    using assms by (simp add: csv_files_of_def)
  then have "set (csv_files_of dir2) = set (csv_files_of dir)"
    by (rule mset_eq_setD)
  then show ?thesis by simp
qed

lemma unique_count_any_order:
  assumes "merge_data_files rp (Some dir) = Inr (dir', Some report)"
    and "mset dir2 = mset dir'"
  shows "length (fst (merge_files (csv_files_of dir2) ([], {}, []))) = unique_listings report"
proof -
  have d: "dir' = write_file dir (u ''sreality_combined.csv'') (dict_reader (combined report))"
    by (rule merge_data_files_report [OF assms(1)])
  have "set (concat (map snd (csv_files_of dir2))) = set (concat (map snd (csv_files_of dir')))"
    by (rule rows_of_permuted_directory [OF assms(2)])
  also have "csv_files_of dir' = csv_files_of dir"
    unfolding d by (rule csv_files_of_write_file)
  finally have "card (row_id ` set (concat (map snd (csv_files_of dir2)))) =
      card (row_id ` set (concat (map snd (csv_files_of dir))))"
    by simp
  then show ?thesis
    using merge_data_files_report(2) [OF assms(1)]
    by (simp add: merge_files_keep_new length_keep_new keep_new_first_rows [symmetric])
qed

lemma empty_not_in_ids_of_rows: "[] \<notin> S \<Longrightarrow> [] \<notin> ids_of_rows rows S"
  by (induction rows arbitrary: S) (auto split: option.splits)

lemma empty_not_in_ids_of_files: "[] \<notin> S \<Longrightarrow> [] \<notin> ids_of_files dir S"
proof (induction dir arbitrary: S)
  case Nil
  then show ?case by simp
next
  case (Cons entry dir)
  obtain f rows where entry: "entry = (f, rows)" by (cases entry)
  have "[] \<notin> ids_of_rows rows S"
    using Cons.prems by (rule empty_not_in_ids_of_rows)
  then have "[] \<notin> ids_of_files dir (ids_of_rows rows S)"
    by (rule Cons.IH)
  moreover have "[] \<notin> ids_of_files dir S"
    using Cons.prems by (rule Cons.IH)
  ultimately show ?case
    unfolding entry by simp
qed

lemma ids_of_rows_has_id: "ids_of_rows (filter has_id rows) S = ids_of_rows rows S"
  by (induction rows arbitrary: S) (auto simp: has_id_def split: option.splits)

lemma ids_of_files_without_idless: "ids_of_files (without_idless dir) S = ids_of_files dir S"
proof (induction dir arbitrary: S)
  case Nil
  then show ?case by (simp add: without_idless_def)
next
  case (Cons entry dir)
  obtain f rows where entry: "entry = (f, rows)" by (cases entry)
  have "without_idless (entry # dir) = (f, filter has_id rows) # without_idless dir"
    unfolding entry by (simp add: without_idless_def)
  then show ?case
    unfolding entry by (simp add: Cons.IH ids_of_rows_has_id)
qed

text \<open>
  Claim C3. The merge keeps, of the rows of the files read in file order, exactly the
  first row seen for each identifier; the combined table and the printed count of a
  merge that completes are those of these rows; and two files with the identifiers A, B
  and B, C give three rows, the row of B being the one of the first file.
\<close>

theorem merge_keeps_first_rows:
  "fst (merge_files files ([], {}, [])) = first_rows (concat (map snd files))
   \<and> (merge_data_files rp (Some dir) = Inr (dir', Some report) \<longrightarrow>
        unique_listings report = length (first_rows (concat (map snd (csv_files_of dir))))
        \<and> writer_rows rp (map row_dict (first_rows (concat (map snd (csv_files_of dir))))) =
            Inr (tl (combined report)))
   \<and> (row_id ra = a \<and> row_id rb = b \<and> row_id rb' = b \<and> row_id rc = c
        \<and> a \<noteq> b \<and> a \<noteq> c \<and> b \<noteq> c \<longrightarrow>
        fst (merge_files [(f1, [ra, rb]), (f2, [rb', rc])] ([], {}, [])) = [ra, rb, rc])"
  using merge_data_files_report(2,3) [of rp dir dir' report]
  by (auto simp: merge_files_keep_new keep_new_first_rows [symmetric])

theorem merge_keeps_first_rows_witness:
  "fst (merge_files
     [(u ''sreality_1.csv'',
         [[(u ''hash_id'', Some (u ''A'')), (u ''name'', Some (u ''one''))],
          [(u ''hash_id'', Some (u ''B'')), (u ''name'', Some (u ''two''))]]),
      (u ''sreality_2.csv'',
         [[(u ''hash_id'', Some (u ''B'')), (u ''name'', Some (u ''other''))],
          [(u ''hash_id'', Some (u ''C'')), (u ''name'', Some (u ''three''))]])]
     ([], {}, [])) =
   [[(u ''hash_id'', Some (u ''A'')), (u ''name'', Some (u ''one''))],
    [(u ''hash_id'', Some (u ''B'')), (u ''name'', Some (u ''two''))],
    [(u ''hash_id'', Some (u ''C'')), (u ''name'', Some (u ''three''))]]"
  using merge_keeps_first_rows [of "[]" "\<lambda>v. []" "[]" "[]" "\<lparr>file_counts = [], combined = [], unique_listings = 0\<rparr>"
    "[(u ''hash_id'', Some (u ''A'')), (u ''name'', Some (u ''one''))]" "Some (u ''A'')"
    "[(u ''hash_id'', Some (u ''B'')), (u ''name'', Some (u ''two''))]" "Some (u ''B'')"
    "[(u ''hash_id'', Some (u ''B'')), (u ''name'', Some (u ''other''))]"
    "[(u ''hash_id'', Some (u ''C'')), (u ''name'', Some (u ''three''))]" "Some (u ''C'')"
    "u ''sreality_1.csv''" "u ''sreality_2.csv''"]
  by (simp add: row_id_def dict_get_def)

text \<open>
  Claim C5. After a merge that completes, the directory holds the combined file, and a
  second merge over that directory gives the same report, so the same count of unique
  identifiers; the count is the same in whatever order the directory lists its files.
\<close>

theorem merge_twice_same_count:
  assumes "merge_data_files rp (Some dir) = Inr (dir', Some report)"
  shows "dict_has dir' (u ''sreality_combined.csv'')
         \<and> merge_data_files rp (Some dir') = Inr (dir', Some report)
         \<and> (mset dir2 = mset dir' \<longrightarrow>
              length (fst (merge_files (csv_files_of dir2) ([], {}, []))) = unique_listings report)"
  using merge_data_files_again [OF assms] unique_count_any_order [OF assms, of dir2]
    merge_data_files_report(4) [OF assms]
  by (simp add: dict_has_write_file)

theorem merge_twice_same_count_witness:
  "\<exists>d r. merge_data_files (\<lambda>v. [])
            (Some [(u ''sreality_1.csv'',
                      [[(u ''hash_id'', Some (u ''A'')), (u ''name'', Some (u ''one''))],
                       [(u ''hash_id'', Some (u ''B'')), (u ''name'', Some (u ''two''))]]),
                   (u ''notes.txt'', []),
                   (u ''sreality_2.csv'',
                      [[(u ''hash_id'', Some (u ''B'')), (u ''name'', Some (u ''other''))]])])
          = Inr (d, Some r)
        \<and> unique_listings r = 2
        \<and> merge_data_files (\<lambda>v. []) (Some d) = Inr (d, Some r)
        \<and> length (fst (merge_files (csv_files_of (rev d)) ([], {}, []))) = 2"
proof -
  obtain d r where m: "merge_data_files (\<lambda>v. [])
            (Some [(u ''sreality_1.csv'',
                      [[(u ''hash_id'', Some (u ''A'')), (u ''name'', Some (u ''one''))],
                       [(u ''hash_id'', Some (u ''B'')), (u ''name'', Some (u ''two''))]]),
                   (u ''notes.txt'', []),
                   (u ''sreality_2.csv'',
                      [[(u ''hash_id'', Some (u ''B'')), (u ''name'', Some (u ''other''))]])])
          = Inr (d, Some r)" and n: "unique_listings r = 2"
    by (simp add: merge_data_files_def csv_files_of_def is_data_file_def row_id_def dict_get_def
        save_to_csv_def writer_row_def CSV_COLUMNS_def row_dict_def csv_cell_def
        is_surrogate_def Let_def u_def)
  show ?thesis
    using m n merge_twice_same_count [OF m, of "rev d"] by auto
qed

text \<open>
  Claim C10, as stated: at most one row without an identifier survives a merge. Here a
  row with an empty \<open>hash_id\<close> and a row shorter than the header, whose
  \<open>hash_id\<close> the reader fills with \<^verbatim>\<open>None\<close>, both survive.
\<close>

theorem no_id_rows_counterexample:
  "length (filter (\<lambda>r. row_id r = None \<or> row_id r = Some [])
     (fst (merge_files
        [(u ''sreality_a.csv'',
            [[(u ''name'', Some (u ''x'')), (u ''hash_id'', Some [])],
             [(u ''name'', Some (u ''y'')), (u ''hash_id'', None)]])]
        ([], {}, [])))) = 2"
  by (simp add: row_id_def dict_get_def)

text \<open>
  Claim C10, amended. The merge keeps one row for the key of the empty string, the
  first row whose \<open>hash_id\<close> is absent or empty, and one row for the key
  \<^verbatim>\<open>None\<close>, the first row shorter than the header. The loader never adds the
  empty identifier, and the rows without an identifier change neither the set it loads
  nor what the filter phase keeps.
\<close>

theorem no_id_rows_per_key:
  "filter (\<lambda>r. row_id r = Some []) (fst (merge_files files ([], {}, []))) =
     take 1 (filter (\<lambda>r. row_id r = Some []) (concat (map snd files)))
   \<and> filter (\<lambda>r. row_id r = None) (fst (merge_files files ([], {}, []))) =
     take 1 (filter (\<lambda>r. row_id r = None) (concat (map snd files)))
   \<and> (map_of row (u ''hash_id'') = None \<or> map_of row (u ''hash_id'') = Some (Some [])
        \<longleftrightarrow> row_id row = Some [])
   \<and> [] \<notin> load_existing_ids fs
   \<and> load_existing_ids (Some (without_idless dir)) = load_existing_ids (Some dir)
   \<and> filter_existing rp (load_existing_ids (Some (without_idless dir))) all_ids =
       filter_existing rp (load_existing_ids (Some dir)) all_ids"
proof -
  have "[] \<notin> load_existing_ids fs"
    by (cases fs) (simp_all add: empty_not_in_ids_of_files)
  moreover have "(map_of row (u ''hash_id'') = None \<or> map_of row (u ''hash_id'') = Some (Some [])
        \<longleftrightarrow> row_id row = Some [])"
    by (auto simp: row_id_def dict_get_def split: option.splits)
  ultimately show ?thesis
    by (simp add: merge_files_keep_new keep_new_filter_key ids_of_files_without_idless)
qed

theorem no_id_rows_per_key_witness:
  "filter (\<lambda>r. row_id r = Some [])
     (fst (merge_files
        [(u ''sreality_a.csv'',
            [[(u ''name'', Some (u ''x''))],
             [(u ''name'', Some (u ''y'')), (u ''hash_id'', None)],
             [(u ''name'', Some (u ''z'')), (u ''hash_id'', Some [])]])]
        ([], {}, []))) = [[(u ''name'', Some (u ''x''))]]
   \<and> load_existing_ids
        (Some [(u ''sreality_a.csv'',
            [[(u ''name'', Some (u ''x''))],
             [(u ''name'', Some (u ''y'')), (u ''hash_id'', None)],
             [(u ''name'', Some (u ''z'')), (u ''hash_id'', Some [])]])]) = {}"
  using no_id_rows_per_key [of
        "[(u ''sreality_a.csv'',
            [[(u ''name'', Some (u ''x''))],
             [(u ''name'', Some (u ''y'')), (u ''hash_id'', None)],
             [(u ''name'', Some (u ''z'')), (u ''hash_id'', Some [])]])]"
        "[]" "None" "[(u ''sreality_a.csv'',
            [[(u ''name'', Some (u ''x''))],
             [(u ''name'', Some (u ''y'')), (u ''hash_id'', None)],
             [(u ''name'', Some (u ''z'')), (u ''hash_id'', Some [])]])]" "\<lambda>v. []" "[]"]
  by (simp add: row_id_def dict_get_def is_data_file_def u_def)

section \<open>Properties of the listing fetcher\<close>




end
